theory Spec2Isabelle
  imports Complex_Main "HOL-Library.AList" "HOL-Library.Multiset"
begin

section \<open>Python strings (ASCII)\<close>

text \<open>
  Names, ids and queries are Python \<open>str\<close> values.  They are modelled as \<open>string\<close>
  (lists of 8-bit characters) and the string methods below are the ASCII restrictions of
  the Python ones: \<open>lower\<close> and \<open>upper\<close> only map the 26 ASCII letters, and
  \<open>encode()\<close> is the identity.
\<close>

definition ascii_uppercase :: string where
  "ascii_uppercase = ''ABCDEFGHIJKLMNOPQRSTUVWXYZ''"

definition ascii_lowercase :: string where
  "ascii_lowercase = ''abcdefghijklmnopqrstuvwxyz''"

definition digits :: string where
  "digits = ''0123456789''"

definition lower_char :: "char \<Rightarrow> char" where
  "lower_char c = (case map_of (zip ascii_uppercase ascii_lowercase) c of Some d \<Rightarrow> d | None \<Rightarrow> c)"

definition upper_char :: "char \<Rightarrow> char" where
  "upper_char c = (case map_of (zip ascii_lowercase ascii_uppercase) c of Some d \<Rightarrow> d | None \<Rightarrow> c)"

text \<open>\<open>s.lower()\<close> and \<open>s.upper()\<close>.\<close>

definition lower :: "string \<Rightarrow> string" where
  "lower s = map lower_char s"

definition upper :: "string \<Rightarrow> string" where
  "upper s = map upper_char s"

text \<open>The characters \<open>str.isspace\<close> accepts below code point 128.\<close>

definition is_space :: "char \<Rightarrow> bool" where
  "is_space c = (c \<in> set [CHR '' '', CHR 0x09, CHR 0x0A, CHR 0x0B, CHR 0x0C, CHR 0x0D,
                            CHR 0x1C, CHR 0x1D, CHR 0x1E, CHR 0x1F])"

text \<open>\<open>s.strip()\<close>.\<close>

definition strip :: "string \<Rightarrow> string" where
  "strip s = rev (dropWhile is_space (rev (dropWhile is_space s)))"

text \<open>\<open>s.split()\<close> without arguments: the maximal runs of non-whitespace characters.\<close>

fun split_from :: "string \<Rightarrow> string \<Rightarrow> string list" where
  "split_from cur [] = (if cur = [] then [] else [cur])"
| "split_from cur (c # cs) =
     (if is_space c then (if cur = [] then split_from [] cs else cur # split_from [] cs)
      else split_from (cur @ [c]) cs)"

definition str_split :: "string \<Rightarrow> string list" where
  "str_split s = split_from [] s"

text \<open>\<open>s.startswith(p)\<close>, \<open>s.endswith(p)\<close> and \<open>sub in s\<close>.\<close>

fun startswith :: "string \<Rightarrow> string \<Rightarrow> bool" where
  "startswith s [] = True"
| "startswith [] (p # ps) = False"
| "startswith (c # cs) (p # ps) = (c = p \<and> startswith cs ps)"

definition endswith :: "string \<Rightarrow> string \<Rightarrow> bool" where
  "endswith s p = startswith (rev s) (rev p)"

fun str_contains :: "string \<Rightarrow> string \<Rightarrow> bool" where
  "str_contains [] sub = (sub = [])"
| "str_contains (c # cs) sub = (startswith (c # cs) sub \<or> str_contains cs sub)"

text \<open>
  \<open>s.replace(old, new)\<close>: the non-overlapping occurrences of \<open>old\<close>, from the left.
  Every call in the program passes a non-empty \<open>old\<close>.
\<close>

function str_replace :: "string \<Rightarrow> string \<Rightarrow> string \<Rightarrow> string" where
  "str_replace old new [] = []"
| "str_replace old new (c # cs) =
     (if old \<noteq> [] \<and> startswith (c # cs) old
      then new @ str_replace old new (drop (length old) (c # cs))
      else c # str_replace old new cs)"
  by pat_completeness auto
termination
  by (relation "measure (\<lambda>(old, new, s). length s)") auto

text \<open>\<open>sep.join(xs)\<close>.\<close>

fun str_join :: "string \<Rightarrow> string list \<Rightarrow> string" where
  "str_join sep [] = []"
| "str_join sep [x] = x"
| "str_join sep (x # y # ys) = x @ sep @ str_join sep (y # ys)"

text \<open>\<open>s[:-n]\<close> for a positive \<open>n\<close>.\<close>

definition drop_last :: "nat \<Rightarrow> string \<Rightarrow> string" where
  "drop_last n s = take (length s - n) s"

text \<open>\<open>re.sub(r"[^a-z0-9]+", "_", s)\<close>: every maximal run of other characters becomes one
  underscore.  The flag says that the previous character belonged to such a run.\<close>

definition is_slug_char :: "char \<Rightarrow> bool" where
  "is_slug_char c = (c \<in> set (ascii_lowercase @ digits))"

fun sub_non_slug :: "bool \<Rightarrow> string \<Rightarrow> string" where
  "sub_non_slug in_run [] = []"
| "sub_non_slug in_run (c # cs) =
     (if is_slug_char c then c # sub_non_slug False cs
      else if in_run then sub_non_slug True cs
      else CHR ''_'' # sub_non_slug True cs)"


text \<open>\<open>s.title()\<close>: a letter is upper-cased after a non-letter and lower-cased after a letter.\<close>

definition is_letter :: "char \<Rightarrow> bool" where
  "is_letter c = (c \<in> set (ascii_lowercase @ ascii_uppercase))"

fun title_from :: "bool \<Rightarrow> string \<Rightarrow> string" where
  "title_from prev [] = []"
| "title_from prev (c # cs) =
     (if is_letter c then (if prev then lower_char c else upper_char c) # title_from True cs
      else c # title_from False cs)"

definition str_title :: "string \<Rightarrow> string" where
  "str_title s = title_from False s"

section \<open>Ordered dictionaries\<close>

text \<open>
  A Python \<open>dict\<close> keeps its keys in insertion order, and assigning to an existing key keeps
  the key's position: an association list with \<^const>\<open>AList.update\<close>.
\<close>

definition dict_get :: "('k \<times> 'v) list \<Rightarrow> 'k \<Rightarrow> 'v option" where
  "dict_get d k = map_of d k"

definition dict_set :: "('k \<times> 'v) list \<Rightarrow> 'k \<Rightarrow> 'v \<Rightarrow> ('k \<times> 'v) list" where
  "dict_set d k v = AList.update k v d"

definition dict_keys :: "('k \<times> 'v) list \<Rightarrow> 'k list" where
  "dict_keys d = map fst d"

definition dict_values :: "('k \<times> 'v) list \<Rightarrow> 'v list" where
  "dict_values d = map snd d"

text \<open>\<open>d[k] = d.get(k, 0) + 1\<close>.\<close>

definition dict_incr :: "('k \<times> nat) list \<Rightarrow> 'k \<Rightarrow> ('k \<times> nat) list" where
  "dict_incr d k = dict_set d k ((case dict_get d k of None \<Rightarrow> 0 | Some c \<Rightarrow> c) + 1)"

text \<open>\<open>list(dict.fromkeys(xs))\<close>: the first occurrences, in order.\<close>

definition dedupe :: "'a list \<Rightarrow> 'a list" where
  "dedupe xs = rev (remdups (rev xs))"

section \<open>What the interpreter and the collaborators supply\<close>

record sitemap_item =
  si_name :: string
  si_frequency :: int
  si_source_urls :: "string list"
  si_categories :: "string list"

text \<open>
  Three things come from outside the pipeline and are parameters of the model:
  \<^item> \<open>md5_hexdigest s\<close> is \<open>hashlib.md5(s.encode()).hexdigest()\<close>;
  \<^item> \<open>set_key\<close> gives the order in which the interpreter iterates over a \<open>set\<close> of strings.
    The order depends on the string hashes of the process and on the way the set was built
    (its insertions decide where colliding hashes land), so the key takes the lists from
    which the set was built: a set with the history \<open>h\<close> is iterated in the order of
    \<open>set_key h\<close>.  Two sets with the same elements and different histories may be iterated
    in different orders, also within one process;
  \<^item> \<open>extract_entities_from_sitemap url\<close> is the answer of the sitemap collaborator,
    \<open>None\<close> when it raises.
\<close>

record runtime =
  md5_hexdigest :: "string \<Rightarrow> string"
  set_key :: "string list list \<Rightarrow> string \<Rightarrow> nat"
  extract_entities_from_sitemap :: "string \<Rightarrow> sitemap_item list option"

text \<open>The elements of a set with the history \<open>h\<close> and the elements \<open>xs\<close>, in iteration
  order.\<close>

definition set_to_list :: "runtime \<Rightarrow> string list list \<Rightarrow> string list \<Rightarrow> string list" where
  "set_to_list rt h xs = sort_key (set_key rt h) (dedupe xs)"

section \<open>Data model\<close>

datatype EntityType = CORE | SUPPORTING | COMPETITOR | ATTRIBUTE

datatype RelationshipType =
  IS_A | PART_OF | USED_FOR | RELATES_TO | REQUIRES | ALTERNATIVE_TO | ENABLES | CONTRASTS_WITH

datatype IntentType = INFORMATIONAL | NAVIGATIONAL | COMMERCIAL | TRANSACTIONAL | LOCAL

datatype ContentPriority = CRITICAL | HIGH | MEDIUM | LOW

datatype SourceMode = SITEMAP | SEED | HYBRID

datatype BusinessGoalType =
  BRAND_AWARENESS | LEAD_GENERATION | ECOMMERCE_SALES | THOUGHT_LEADERSHIP
  | LOCAL_VISIBILITY | PRODUCT_ADOPTION

fun goal_value :: "BusinessGoalType \<Rightarrow> string" where
  "goal_value BRAND_AWARENESS = ''brand_awareness''"
| "goal_value LEAD_GENERATION = ''lead_generation''"
| "goal_value ECOMMERCE_SALES = ''ecommerce_sales''"
| "goal_value THOUGHT_LEADERSHIP = ''thought_leadership''"
| "goal_value LOCAL_VISIBILITY = ''local_visibility''"
| "goal_value PRODUCT_ADOPTION = ''product_adoption''"

fun intent_value :: "IntentType \<Rightarrow> string" where
  "intent_value INFORMATIONAL = ''informational''"
| "intent_value NAVIGATIONAL = ''navigational''"
| "intent_value COMMERCIAL = ''commercial''"
| "intent_value TRANSACTIONAL = ''transactional''"
| "intent_value LOCAL = ''local''"

text \<open>The values stored in \<open>Entity.attributes\<close>.\<close>

datatype attr_value = AttrStr string | AttrInt int | AttrList "string list"

text \<open>Scores are Python floats; they are modelled as exact rationals.\<close>

record Entity =
  e_id :: string
  e_name :: string
  e_type :: EntityType
  e_description :: "string option"
  e_aliases :: "string list"
  e_attributes :: "(string \<times> attr_value) list"
  e_commercial_value :: rat
  e_semantic_centrality :: rat
  e_source_urls :: "string list"

record Relationship =
  source_id :: string
  target_id :: string
  relationship_type :: RelationshipType
  weight :: rat
  rel_context :: "string option"
  bidirectional :: bool

record Ontology =
  o_brand_name :: string
  o_entities :: "Entity list"
  o_relationships :: "Relationship list"

text \<open>\<open>Ontology.get_entity\<close> and \<open>Ontology.get_related_entities\<close>.\<close>

definition get_entity :: "Ontology \<Rightarrow> string \<Rightarrow> Entity option" where
  "get_entity ont entity_id = find (\<lambda>e. e_id e = entity_id) (o_entities ont)"

definition related_of :: "Ontology \<Rightarrow> string \<Rightarrow> Relationship \<Rightarrow> (Entity \<times> Relationship) list" where
  "related_of ont entity_id rel =
     (if source_id rel = entity_id
      then (case get_entity ont (target_id rel) of Some e \<Rightarrow> [(e, rel)] | None \<Rightarrow> [])
      else if bidirectional rel \<and> target_id rel = entity_id
      then (case get_entity ont (source_id rel) of Some e \<Rightarrow> [(e, rel)] | None \<Rightarrow> [])
      else [])"

definition get_related_entities :: "Ontology \<Rightarrow> string \<Rightarrow> (Entity \<times> Relationship) list" where
  "get_related_entities ont entity_id = concat (map (related_of ont entity_id) (o_relationships ont))"

record BrandFoundationConfig =
  brand_name :: string
  primary_niche :: string
  business_goals :: "BusinessGoalType list"
  source_mode :: SourceMode
  sitemap_url :: "string option"
  seed_entities :: "string list"
  competitors :: "string list"

section \<open>Step 1: OntologyBuilder\<close>

text \<open>The builder's two attributes, \<open>self.entities\<close> (a dict by id) and \<open>self.relationships\<close>.\<close>

record ob_state =
  ob_entities :: "(string \<times> Entity) list"
  ob_relationships :: "Relationship list"

definition generate_entity_id :: "runtime \<Rightarrow> string \<Rightarrow> string" where
  "generate_entity_id rt name =
     (let normalized = strip (lower name);
          hash_suffix = take 8 (md5_hexdigest rt normalized);
          slug = take 30 (sub_non_slug False normalized)
      in slug @ ''_'' @ hash_suffix)"

definition generate_aliases :: "string \<Rightarrow> string list" where
  "generate_aliases entity_name =
     (let name = strip entity_name;
          words = str_split name
      in (if endswith name ''s'' \<and> length name > 3 then [drop_last 1 name]
          else if \<not> endswith name ''s'' then [name @ ''s'']
          else [])
         @ (if length words > 1 \<and> length (upper (map hd words)) \<ge> 2
            then [upper (map hd words)] else [])
         @ (if CHR ''-'' \<in> set name then [str_replace ''-'' '' '' name]
            else if CHR '' '' \<in> set name then [str_replace '' '' ''-'' name]
            else []))"

text \<open>The defaults of the \<open>Entity\<close> model.\<close>

definition new_entity :: "string \<Rightarrow> string \<Rightarrow> EntityType \<Rightarrow> Entity" where
  "new_entity i n t =
     \<lparr>e_id = i, e_name = n, e_type = t, e_description = None, e_aliases = [],
      e_attributes = [], e_commercial_value = 1/2, e_semantic_centrality = 1/2,
      e_source_urls = []\<rparr>"

definition add_brand_entity :: "runtime \<Rightarrow> BrandFoundationConfig \<Rightarrow> ob_state \<Rightarrow> ob_state" where
  "add_brand_entity rt cfg st =
     (let brand_id = generate_entity_id rt (brand_name cfg)
      in st\<lparr>ob_entities := dict_set (ob_entities st) brand_id
           ((new_entity brand_id (brand_name cfg) CORE)
              \<lparr>e_description := Some (''Primary brand entity for '' @ brand_name cfg),
               e_attributes := [(''niche'', AttrStr (primary_niche cfg)),
                                (''goals'', AttrList (map goal_value (business_goals cfg)))],
               e_commercial_value := 1,
               e_semantic_centrality := 1\<rparr>)\<rparr>)"

definition add_seed :: "runtime \<Rightarrow> ob_state \<Rightarrow> string \<Rightarrow> ob_state" where
  "add_seed rt st seed0 =
     (let seed = strip seed0
      in if seed = [] then st
         else let entity_id = generate_entity_id rt seed
              in if dict_get (ob_entities st) entity_id = None
                 then st\<lparr>ob_entities := dict_set (ob_entities st) entity_id
                        ((new_entity entity_id seed CORE)\<lparr>e_aliases := generate_aliases seed\<rparr>)\<rparr>
                 else st)"

definition add_competitor :: "runtime \<Rightarrow> ob_state \<Rightarrow> string \<Rightarrow> ob_state" where
  "add_competitor rt st competitor0 =
     (let competitor = strip competitor0
      in if competitor = [] then st
         else let entity_id = generate_entity_id rt competitor
              in if dict_get (ob_entities st) entity_id = None
                 then st\<lparr>ob_entities := dict_set (ob_entities st) entity_id
                        ((new_entity entity_id competitor COMPETITOR)
                           \<lparr>e_description := Some (''Competitor: '' @ competitor)\<rparr>)\<rparr>
                 else st)"

definition create_from_seeds :: "runtime \<Rightarrow> BrandFoundationConfig \<Rightarrow> ob_state \<Rightarrow> ob_state" where
  "create_from_seeds rt cfg st =
     foldl (add_competitor rt) (foldl (add_seed rt) st (seed_entities cfg)) (competitors cfg)"

definition add_sitemap_item :: "runtime \<Rightarrow> ob_state \<Rightarrow> sitemap_item \<Rightarrow> ob_state" where
  "add_sitemap_item rt st item =
     (let name = si_name item;
          entity_id = generate_entity_id rt name
      in case dict_get (ob_entities st) entity_id of
           None \<Rightarrow>
             st\<lparr>ob_entities := dict_set (ob_entities st) entity_id
                  ((new_entity entity_id name (if si_frequency item > 1 then CORE else SUPPORTING))
                     \<lparr>e_source_urls := si_source_urls item,
                      e_attributes := [(''frequency'', AttrInt (si_frequency item)),
                                       (''categories'', AttrList (si_categories item))]\<rparr>)\<rparr>
         | Some existing \<Rightarrow>
             st\<lparr>ob_entities := dict_set (ob_entities st) entity_id
                  (existing\<lparr>e_source_urls := e_source_urls existing @ si_source_urls item\<rparr>)\<rparr>)"

text \<open>A missing or empty url returns at once; an exception of the parser is caught and only
  printed, so the entities stay as they are.\<close>

definition extract_from_sitemap :: "runtime \<Rightarrow> BrandFoundationConfig \<Rightarrow> ob_state \<Rightarrow> ob_state" where
  "extract_from_sitemap rt cfg st =
     (case sitemap_url cfg of
        None \<Rightarrow> st
      | Some url \<Rightarrow>
          if url = [] then st
          else (case extract_entities_from_sitemap rt url of
                  None \<Rightarrow> st
                | Some extracted \<Rightarrow> foldl (add_sitemap_item rt) st (take 50 extracted)))"

definition stop_words :: "string list" where
  "stop_words = [''the'', ''a'', ''an'', ''and'', ''or'', ''for'', ''of'', ''in'']"

text \<open>\<open>words1 & words2 - {...}\<close>, which Python reads as \<open>words1 & (words2 - {...})\<close>, iterated
  as a set; the two sets are built from the words of the two names.\<close>

definition common_words :: "runtime \<Rightarrow> string \<Rightarrow> string \<Rightarrow> string list" where
  "common_words rt name1 name2 =
     set_to_list rt [str_split name1, str_split name2]
       (filter (\<lambda>w. w \<in> set (str_split name2) \<and> w \<notin> set stop_words) (str_split name1))"

definition quoted :: "string \<Rightarrow> string" where
  "quoted s = [CHR 0x27] @ s @ [CHR 0x27]"

definition detect_relationship :: "runtime \<Rightarrow> Entity \<Rightarrow> Entity \<Rightarrow> Relationship option" where
  "detect_relationship rt e1 e2 =
     (let name1 = lower (e_name e1);
          name2 = lower (e_name e2)
      in if str_contains name2 name1 \<and> name1 \<noteq> name2
         then Some \<lparr>source_id = e_id e2, target_id = e_id e1, relationship_type = IS_A,
                    weight = 7/10,
                    rel_context = Some (quoted (e_name e2) @ '' contains '' @ quoted (e_name e1)),
                    bidirectional = False\<rparr>
         else if str_contains name1 name2 \<and> name1 \<noteq> name2
         then Some \<lparr>source_id = e_id e1, target_id = e_id e2, relationship_type = IS_A,
                    weight = 7/10,
                    rel_context = Some (quoted (e_name e1) @ '' contains '' @ quoted (e_name e2)),
                    bidirectional = False\<rparr>
         else let common = common_words rt name1 name2
              in if common \<noteq> [] \<and> length common \<ge> 1
                 then Some \<lparr>source_id = e_id e1, target_id = e_id e2,
                            relationship_type = RELATES_TO, weight = 1/2,
                            rel_context = Some (''Shared terms: '' @ str_join '', '' common),
                            bidirectional = True\<rparr>
                 else None)"

text \<open>The first loop of \<open>_infer_relationships\<close>: the edges of one entity to the brand.\<close>

definition brand_edges :: "string \<Rightarrow> Entity \<Rightarrow> Relationship list" where
  "brand_edges brand_id entity =
     (if e_id entity = brand_id then []
      else (if e_type entity = CORE
            then [\<lparr>source_id = e_id entity, target_id = brand_id, relationship_type = PART_OF,
                   weight = 4/5, rel_context = Some ''Core entity of brand'',
                   bidirectional = False\<rparr>]
            else [])
           @ (if e_type entity = COMPETITOR
              then [\<lparr>source_id = e_id entity, target_id = brand_id,
                     relationship_type = ALTERNATIVE_TO, weight = 3/5,
                     rel_context = Some ''Competitor relationship'', bidirectional = True\<rparr>]
              else []))"

text \<open>The second loop: every entity with every later one.\<close>

fun pair_edges :: "runtime \<Rightarrow> Entity list \<Rightarrow> Relationship list" where
  "pair_edges rt [] = []"
| "pair_edges rt (entity1 # rest) =
     List.map_filter (detect_relationship rt entity1) rest @ pair_edges rt rest"

definition infer_relationships :: "runtime \<Rightarrow> BrandFoundationConfig \<Rightarrow> ob_state \<Rightarrow> ob_state" where
  "infer_relationships rt cfg st =
     (let entity_list = dict_values (ob_entities st);
          brand_id = generate_entity_id rt (brand_name cfg)
      in st\<lparr>ob_relationships :=
              ob_relationships st @ concat (map (brand_edges brand_id) entity_list)
                @ pair_edges rt entity_list\<rparr>)"

definition relationship_counts :: "Relationship list \<Rightarrow> (string \<times> nat) list" where
  "relationship_counts rels =
     foldl (\<lambda>d rel. dict_incr (dict_incr d (source_id rel)) (target_id rel)) [] rels"

definition score_entity :: "(string \<times> nat) list \<Rightarrow> nat \<Rightarrow> string \<times> Entity \<Rightarrow> string \<times> Entity" where
  "score_entity counts max_rels kv =
     (case kv of (entity_id, entity) \<Rightarrow>
        let rel_count = (case dict_get counts entity_id of None \<Rightarrow> 0 | Some c \<Rightarrow> c)
        in (entity_id,
            entity\<lparr>e_semantic_centrality := min 1 (of_nat rel_count / of_nat max_rels + 1/5),
                   e_commercial_value :=
                     (case e_type entity of
                        CORE \<Rightarrow> 4/5 | SUPPORTING \<Rightarrow> 2/5 | COMPETITOR \<Rightarrow> 3/10
                      | ATTRIBUTE \<Rightarrow> 1/2)\<rparr>))"

definition calculate_entity_scores :: "ob_state \<Rightarrow> ob_state" where
  "calculate_entity_scores st =
     (let counts = relationship_counts (ob_relationships st);
          max_rels = (if counts = [] then 1 else foldr max (map snd counts) 0)
      in st\<lparr>ob_entities := map (score_entity counts max_rels) (ob_entities st)\<rparr>)"

text \<open>\<open>OntologyBuilder(config).build()\<close>, on a fresh builder.\<close>

definition build :: "runtime \<Rightarrow> BrandFoundationConfig \<Rightarrow> Ontology" where
  "build rt cfg =
     (let st0 = \<lparr>ob_entities = [], ob_relationships = []\<rparr>;
          st1 = (case source_mode cfg of
                   SITEMAP \<Rightarrow> extract_from_sitemap rt cfg st0
                 | SEED \<Rightarrow> create_from_seeds rt cfg st0
                 | HYBRID \<Rightarrow>
                     (let s = create_from_seeds rt cfg st0
                      in if sitemap_url cfg \<noteq> None \<and> sitemap_url cfg \<noteq> Some []
                         then extract_from_sitemap rt cfg s else s));
          st2 = add_brand_entity rt cfg st1;
          st3 = infer_relationships rt cfg st2;
          st4 = calculate_entity_scores st3
      in \<lparr>o_brand_name = brand_name cfg,
          o_entities = dict_values (ob_entities st4),
          o_relationships = ob_relationships st4\<rparr>)"

text \<open>The state of the builder after the dispatch on the source mode in \<open>build\<close>.\<close>

definition sourced :: "runtime \<Rightarrow> BrandFoundationConfig \<Rightarrow> ob_state" where
  "sourced rt cfg =
     (let st0 = \<lparr>ob_entities = [], ob_relationships = []\<rparr>
      in case source_mode cfg of
           SITEMAP \<Rightarrow> extract_from_sitemap rt cfg st0
         | SEED \<Rightarrow> create_from_seeds rt cfg st0
         | HYBRID \<Rightarrow>
             (let s = create_from_seeds rt cfg st0
              in if sitemap_url cfg \<noteq> None \<and> sitemap_url cfg \<noteq> Some []
                 then extract_from_sitemap rt cfg s else s))"

text \<open>The invariant of \<open>self.entities\<close>: the keys are distinct and every entity is stored under
  its own id.\<close>

definition dict_inv :: "(string \<times> Entity) list \<Rightarrow> bool" where
  "dict_inv d \<longleftrightarrow> distinct (map fst d) \<and> (\<forall>kv \<in> set d. e_id (snd kv) = fst kv)"

definition is_a_edge :: "Entity \<Rightarrow> Entity \<Rightarrow> Relationship" where
  "is_a_edge longer shorter =
     \<lparr>source_id = e_id longer, target_id = e_id shorter, relationship_type = IS_A,
      weight = 7/10,
      rel_context = Some (quoted (e_name longer) @ '' contains '' @ quoted (e_name shorter)),
      bidirectional = False\<rparr>"

definition inferred :: "runtime \<Rightarrow> BrandFoundationConfig \<Rightarrow> ob_state" where
  "inferred rt cfg = infer_relationships rt cfg (add_brand_entity rt cfg (sourced rt cfg))"

definition md5_known :: "string \<Rightarrow> string" where
  "md5_known s =
     (case map_of
        [(''acme'', ''53bce4f1dfa0fe8e7ca126f91b35d3a6''),
         (''tools'', ''4a931512ce65bdc9ca6808adf92d8783''),
         (''task tools'', ''5599022b3280396b6153bbf7091c40ac''),
         (''task tracking tool'', ''e0cca5f81bb4c88a14b6c9785a0f0cf0''),
         (''tracking task app'', ''e36c933bbfb916e25e44e995c3b79fb1''),
         (''crm'', ''1fece0cb254f1f45891bc9ee9fed72a9'')] s of
        Some d \<Rightarrow> d | None \<Rightarrow> [])"

definition rt0 :: runtime where
  "rt0 = \<lparr>md5_hexdigest = md5_known, set_key = (\<lambda>h. length),
          extract_entities_from_sitemap = (\<lambda>url. None)\<rparr>"

definition cfg_tools :: BrandFoundationConfig where
  "cfg_tools =
     \<lparr>brand_name = ''Acme'', primary_niche = ''Project Management Software'',
      business_goals = [BRAND_AWARENESS], source_mode = SEED, sitemap_url = None,
      seed_entities = [''tools'', ''task tools''], competitors = []\<rparr>"







section \<open>Step 2: EntitySearchExpander\<close>













section \<open>Step 4: QueryMapper\<close>

fun type_value :: "EntityType \<Rightarrow> string" where
  "type_value CORE = ''core''"
| "type_value SUPPORTING = ''supporting''"
| "type_value COMPETITOR = ''competitor''"
| "type_value ATTRIBUTE = ''attribute''"

record Query =
  query_text :: string
  intent :: IntentType
  q_entity_ids :: "string list"
  estimated_volume :: "int option"
  difficulty :: "rat option"
  q_priority :: ContentPriority
  serp_features :: "string list"
  fanout_pattern :: "string option"

record QueryCluster =
  qc_id :: string
  primary_entity_id :: string
  primary_entity_name :: string
  queries :: "Query list"
  intent_distribution :: "(string \<times> nat) list"
  total_estimated_volume :: int

text \<open>\<open>QueryCluster.add_query\<close>.  A volume that is \<open>None\<close> or 0 is falsy and adds nothing.\<close>

definition add_query :: "QueryCluster \<Rightarrow> Query \<Rightarrow> QueryCluster" where
  "add_query cluster query =
     cluster\<lparr>queries := queries cluster @ [query],
             intent_distribution :=
               dict_incr (intent_distribution cluster) (intent_value (intent query)),
             total_estimated_volume :=
               (case estimated_volume query of
                  None \<Rightarrow> total_estimated_volume cluster
                | Some v \<Rightarrow> if v \<noteq> 0 then total_estimated_volume cluster + v
                            else total_estimated_volume cluster)\<rparr>"

text \<open>\<open>QUERY_FANOUT_PATTERNS\<close>: the patterns, the intent and the priority of every pattern
  name.\<close>

definition QUERY_FANOUT_PATTERNS :: "(string \<times> string list \<times> string \<times> nat) list" where
  "QUERY_FANOUT_PATTERNS =
     [(''definitional'',
       [''what is {entity}'', ''{entity} meaning'', ''{entity} definition'',
        ''{entity} explained''], ''informational'', 1),
      (''how_to'',
       [''how to {entity}'', ''{entity} tutorial'', ''{entity} guide'', ''learn {entity}''],
       ''informational'', 1),
      (''comparison'',
       [''{entity} vs'', ''{entity} alternatives'', ''{entity} comparison'', ''best {entity}''],
       ''commercial'', 2),
      (''problems'',
       [''{entity} problems'', ''{entity} issues'', ''{entity} not working'',
        ''{entity} errors''], ''informational'', 2),
      (''benefits'',
       [''{entity} benefits'', ''why use {entity}'', ''{entity} advantages'',
        ''{entity} pros cons''], ''commercial'', 2),
      (''examples'',
       [''{entity} examples'', ''{entity} use cases'', ''{entity} templates'',
        ''{entity} samples''], ''informational'', 2),
      (''pricing'',
       [''{entity} pricing'', ''{entity} cost'', ''{entity} free'', ''is {entity} free''],
       ''transactional'', 3),
      (''reviews'',
       [''{entity} review'', ''{entity} reviews'', ''is {entity} good'', ''{entity} worth it''],
       ''commercial'', 2),
      (''integration'',
       [''{entity} integration'', ''{entity} with'', ''{entity} api'', ''{entity} plugins''],
       ''informational'', 3),
      (''advanced'',
       [''advanced {entity}'', ''{entity} best practices'', ''{entity} tips'',
        ''{entity} optimization''], ''informational'', 3)]"

text \<open>\<open>IntentType(intent_str)\<close>, which raises \<open>ValueError\<close> on any other string.\<close>

definition IntentType_of_value :: "string \<Rightarrow> IntentType option" where
  "IntentType_of_value s =
     (if s = ''informational'' then Some INFORMATIONAL
      else if s = ''navigational'' then Some NAVIGATIONAL
      else if s = ''commercial'' then Some COMMERCIAL
      else if s = ''transactional'' then Some TRANSACTIONAL
      else if s = ''local'' then Some LOCAL
      else None)"

definition priority_map :: "nat \<Rightarrow> ContentPriority" where
  "priority_map priority_val =
     (if priority_val = 1 then CRITICAL
      else if priority_val = 2 then HIGH
      else if priority_val = 3 then MEDIUM
      else MEDIUM)"

definition pattern_features :: "(string \<times> string list) list" where
  "pattern_features =
     [(''definitional'', [''featured_snippet'', ''knowledge_panel'']),
      (''how_to'', [''featured_snippet'', ''how_to_rich_result'', ''video_carousel'']),
      (''comparison'', [''featured_snippet'', ''table_snippet'']),
      (''problems'', [''paa'', ''featured_snippet'']),
      (''benefits'', [''featured_snippet'', ''paa'']),
      (''examples'', [''featured_snippet'', ''image_pack'']),
      (''pricing'', [''product_results'', ''shopping_ads'']),
      (''reviews'', [''review_snippet'', ''star_rating'']),
      (''integration'', [''paa'', ''featured_snippet'']),
      (''advanced'', [''featured_snippet'', ''paa''])]"

definition predict_serp_features :: "string \<Rightarrow> IntentType \<Rightarrow> string list" where
  "predict_serp_features pattern_name intent0 =
     (let features = (case dict_get pattern_features pattern_name of
                        Some fs \<Rightarrow> fs | None \<Rightarrow> []);
          features =
            (if intent0 = COMMERCIAL
             then (if ''shopping_ads'' \<notin> set features then features @ [''paa'']
                   else features)
             else if intent0 = TRANSACTIONAL then features @ [''site_links'']
             else features)
      in dedupe features)"

text \<open>The body of the outer loop of \<open>_generate_fanout_queries\<close>: the queries of one pattern
  name, \<open>None\<close> when the intent string is no intent.\<close>

definition pattern_queries ::
  "Entity \<Rightarrow> string \<times> string list \<times> string \<times> nat \<Rightarrow> Query list option" where
  "pattern_queries entity kv =
     (case kv of (pattern_name, patterns, intent_str, priority_val) \<Rightarrow>
        (case IntentType_of_value intent_str of
           None \<Rightarrow> None
         | Some intent0 \<Rightarrow>
             Some (map (\<lambda>pattern.
                          \<lparr>query_text = str_replace ''{entity}'' (lower (e_name entity)) pattern,
                           intent = intent0,
                           q_entity_ids = [e_id entity],
                           estimated_volume = None,
                           difficulty = None,
                           q_priority = priority_map priority_val,
                           serp_features = predict_serp_features pattern_name intent0,
                           fanout_pattern = Some pattern_name\<rparr>)
                     (take 3 patterns))))"

definition generate_fanout_queries :: "Entity \<Rightarrow> Query list option" where
  "generate_fanout_queries entity =
     map_option concat (those (map (pattern_queries entity) QUERY_FANOUT_PATTERNS))"

definition generate_alias_queries :: "string \<Rightarrow> string \<Rightarrow> Query list" where
  "generate_alias_queries alias entity_id =
     (let alias_lower = lower alias
      in [\<lparr>query_text = ''what is '' @ alias_lower, intent = INFORMATIONAL,
           q_entity_ids = [entity_id], estimated_volume = None, difficulty = None,
           q_priority = MEDIUM, serp_features = [],
           fanout_pattern = Some ''alias_definitional''\<rparr>,
          \<lparr>query_text = ''how to use '' @ alias_lower, intent = INFORMATIONAL,
           q_entity_ids = [entity_id], estimated_volume = None, difficulty = None,
           q_priority = MEDIUM, serp_features = [],
           fanout_pattern = Some ''alias_howto''\<rparr>])"

definition create_query_cluster :: "runtime \<Rightarrow> Entity \<Rightarrow> QueryCluster option" where
  "create_query_cluster rt entity =
     (let cluster_id = ''qc_'' @ take 8 (md5_hexdigest rt (e_id entity));
          cluster = \<lparr>qc_id = cluster_id, primary_entity_id = e_id entity,
                     primary_entity_name = e_name entity, queries = [],
                     intent_distribution = [], total_estimated_volume = 0\<rparr>
      in case generate_fanout_queries entity of
           None \<Rightarrow> None
         | Some fanout \<Rightarrow>
             Some (foldl add_query cluster
                     (fanout @ concat (map (\<lambda>alias. generate_alias_queries alias (e_id entity))
                                         (take 5 (e_aliases entity))))))"

text \<open>The two loops of \<open>map_all_entities\<close> store every cluster under its id.\<close>

fun add_clusters ::
  "runtime \<Rightarrow> Entity list \<Rightarrow> (string \<times> QueryCluster) list
     \<Rightarrow> (string \<times> QueryCluster) list option" where
  "add_clusters rt [] clusters = Some clusters"
| "add_clusters rt (entity # rest) clusters =
     (case create_query_cluster rt entity of
        None \<Rightarrow> None
      | Some cluster \<Rightarrow> add_clusters rt rest (dict_set clusters (qc_id cluster) cluster))"

text \<open>\<open>QueryMapper(ontology).map_all_entities()\<close>, on a fresh mapper.\<close>

definition map_all_entities :: "runtime \<Rightarrow> Ontology \<Rightarrow> QueryCluster list option" where
  "map_all_entities rt ont =
     (let core_entities = filter (\<lambda>e. type_value (e_type e) = ''core'') (o_entities ont);
          supporting = filter (\<lambda>e. type_value (e_type e) = ''supporting''
                                     \<and> e_semantic_centrality e > 1/2) (o_entities ont)
      in map_option dict_values (add_clusters rt (core_entities @ supporting) []))"

text \<open>The count that \<open>intent_distribution\<close> holds for a key, 0 when the key is missing.\<close>

definition intent_count :: "QueryCluster \<Rightarrow> string \<Rightarrow> nat" where
  "intent_count c k = (case dict_get (intent_distribution c) k of None \<Rightarrow> 0 | Some n \<Rightarrow> n)"

text \<open>The digests of the entity ids of the example.\<close>

definition md5_ids :: "string \<Rightarrow> string" where
  "md5_ids s =
     (if s = ''tools_4a931512'' then ''9c2dca93f4ab12c580fcc25da968e3ac''
      else if s = ''task_tools_5599022b'' then ''8d0d104ec37b3b3297bd0375293e58b0''
      else if s = ''acme_53bce4f1'' then ''78d1756264de6f8def6cb5b96a4b0ed4''
      else md5_known s)"

definition rt_ids :: runtime where
  "rt_ids = rt0\<lparr>md5_hexdigest := md5_ids\<rparr>"

section \<open>Proofs: the query mapper\<close>

definition cluster_inv :: "QueryCluster \<Rightarrow> bool" where
  "cluster_inv c \<longleftrightarrow>
     distinct (map fst (intent_distribution c))
     \<and> sum_list (map snd (intent_distribution c)) = length (queries c)
     \<and> (\<forall>k. intent_count c k
              = length (filter (\<lambda>q. intent_value (intent q) = k) (queries c)))"

section \<open>Proofs: the entity expander\<close>

section \<open>Proofs: the ontology builder\<close>

lemma set_update_subset: "set (AList.update k v d) \<subseteq> insert (k, v) (set d)"
  by (induction d) auto

lemma dict_inv_set: "dict_inv d \<Longrightarrow> e_id e = k \<Longrightarrow> dict_inv (dict_set d k e)"
  unfolding dict_inv_def dict_set_def
  using set_update_subset [of k e d] by (auto simp: distinct_update)

lemma dict_inv_empty: "dict_inv []"
  by (simp add: dict_inv_def)

lemma find_dict:
  "dict_inv d \<Longrightarrow> map_of d k = Some e \<Longrightarrow> find (\<lambda>e. e_id e = k) (map snd d) = Some e"
proof (induction d)
  case Nil
  then show ?case by simp
next
  case (Cons kv d)
  then show ?case
    by (cases kv) (auto simp: dict_inv_def split: if_splits)
qed

lemma add_seed_inv: "dict_inv (ob_entities st) \<Longrightarrow> dict_inv (ob_entities (add_seed rt st s))"
  by (auto simp: add_seed_def Let_def new_entity_def intro!: dict_inv_set)

lemma add_competitor_inv:
  "dict_inv (ob_entities st) \<Longrightarrow> dict_inv (ob_entities (add_competitor rt st s))"
  by (auto simp: add_competitor_def Let_def new_entity_def intro!: dict_inv_set)

lemma map_of_inv_id: "dict_inv d \<Longrightarrow> map_of d k = Some e \<Longrightarrow> e_id e = k"
  by (auto simp: dict_inv_def dest!: map_of_SomeD)

lemma add_sitemap_item_inv:
  "dict_inv (ob_entities st) \<Longrightarrow> dict_inv (ob_entities (add_sitemap_item rt st it))"
  by (auto simp: add_sitemap_item_def Let_def new_entity_def dict_get_def
      dest: map_of_inv_id intro!: dict_inv_set split: option.splits)

lemma foldl_inv:
  assumes "\<And>st x. P st \<Longrightarrow> P (f st x)"
  shows "P st \<Longrightarrow> P (foldl f st xs)"
  by (induction xs arbitrary: st) (auto intro: assms)

lemma create_from_seeds_inv:
  "dict_inv (ob_entities st) \<Longrightarrow> dict_inv (ob_entities (create_from_seeds rt cfg st))"
  unfolding create_from_seeds_def
  by (intro foldl_inv [where P = "\<lambda>s. dict_inv (ob_entities s)"] add_seed_inv add_competitor_inv)

lemma extract_from_sitemap_inv:
  "dict_inv (ob_entities st) \<Longrightarrow> dict_inv (ob_entities (extract_from_sitemap rt cfg st))"
  unfolding extract_from_sitemap_def
  by (auto split: option.splits
      intro!: foldl_inv [where P = "\<lambda>s. dict_inv (ob_entities s)"] add_sitemap_item_inv)

lemma sourced_inv: "dict_inv (ob_entities (sourced rt cfg))"
  unfolding sourced_def Let_def
  by (auto split: SourceMode.splits
      intro!: extract_from_sitemap_inv create_from_seeds_inv simp: dict_inv_empty)

lemma build_alt:
  "build rt cfg =
     (let st4 = calculate_entity_scores (infer_relationships rt cfg (add_brand_entity rt cfg (sourced rt cfg)))
      in \<lparr>o_brand_name = brand_name cfg,
          o_entities = dict_values (ob_entities st4),
          o_relationships = ob_relationships st4\<rparr>)"
  by (simp add: build_def sourced_def Let_def)

lemma add_brand_inv:
  "dict_inv (ob_entities st) \<Longrightarrow> dict_inv (ob_entities (add_brand_entity rt cfg st))"
  by (auto simp: add_brand_entity_def Let_def new_entity_def intro!: dict_inv_set)

lemma fst_score_entity: "fst (score_entity c m kv) = fst kv"
  by (cases kv) (simp add: score_entity_def Let_def)

lemma id_score_entity: "e_id (snd (score_entity c m kv)) = e_id (snd kv)"
  by (cases kv) (simp add: score_entity_def Let_def)

lemma name_score_entity: "e_name (snd (score_entity c m kv)) = e_name (snd kv)"
  by (cases kv) (simp add: score_entity_def Let_def)

lemma scores_inv:
  "dict_inv (ob_entities st) \<Longrightarrow> dict_inv (ob_entities (calculate_entity_scores st))"
  by (auto simp: calculate_entity_scores_def Let_def dict_inv_def o_def
      fst_score_entity id_score_entity)

lemma map_of_scored:
  "map_of (map (score_entity c m) d) k = map_option (\<lambda>e. snd (score_entity c m (k, e))) (map_of d k)"
  by (induction d) (auto simp: score_entity_def Let_def)

lemma infer_entities: "ob_entities (infer_relationships rt cfg st) = ob_entities st"
  by (simp add: infer_relationships_def Let_def)

text \<open>
  Claim C2 says that the brand entity of the built ontology has commercial value 1.0 and
  semantic centrality 1.0.  \<open>_add_brand_entity\<close> creates it with these scores, but the scoring
  pass that runs afterwards recomputes the scores of every entity, the brand included: for
  every configuration the brand entity of the result is a core entity with commercial
  value 0.8.
\<close>

theorem brand_scores_overwritten:
  "\<exists>e. get_entity (build rt cfg) (generate_entity_id rt (brand_name cfg)) = Some e
       \<and> e_name e = brand_name cfg \<and> e_commercial_value e = 4/5"
proof -
  let ?b = "generate_entity_id rt (brand_name cfg)"
  let ?st2 = "add_brand_entity rt cfg (sourced rt cfg)"
  let ?st4 = "calculate_entity_scores (infer_relationships rt cfg ?st2)"
  obtain b where b: "map_of (ob_entities ?st2) ?b = Some b" "e_type b = CORE"
    "e_name b = brand_name cfg"
    by (simp add: add_brand_entity_def Let_def dict_set_def update_conv' new_entity_def)
  have inv: "dict_inv (ob_entities ?st4)"
    by (intro scores_inv) (simp add: infer_entities add_brand_inv sourced_inv)
  obtain e where e: "map_of (ob_entities ?st4) ?b = Some e" "e_name e = brand_name cfg"
    "e_commercial_value e = 4/5"
    using b by (simp add: calculate_entity_scores_def Let_def map_of_scored infer_entities
        score_entity_def)
  from find_dict [OF inv e(1)] e(2,3) show ?thesis
    by (auto simp: get_entity_def build_alt Let_def dict_values_def)
qed

section \<open>Proofs: relationship inference and determinism\<close>

lemma startswith_length: "startswith s p \<Longrightarrow> length p \<le> length s"
  by (induction s p rule: startswith.induct) auto

lemma startswith_same_length: "startswith s p \<Longrightarrow> length s = length p \<Longrightarrow> s = p"
  by (induction s p rule: startswith.induct) auto

lemma str_contains_length: "str_contains s sub \<Longrightarrow> length sub \<le> length s"
proof (induction s)
  case Nil
  then show ?case by simp
next
  case (Cons c cs)
  then show ?case
    using startswith_length [of "c # cs" sub] by auto
qed

lemma str_contains_same_length: "str_contains s sub \<Longrightarrow> length s = length sub \<Longrightarrow> s = sub"
proof (cases s)
  case Nil
  then show "str_contains s sub \<Longrightarrow> length s = length sub \<Longrightarrow> s = sub" by simp
next
  case (Cons c cs)
  assume a: "str_contains s sub" "length s = length sub"
  from a Cons have "startswith s sub \<or> str_contains cs sub" by simp
  moreover have "\<not> str_contains cs sub"
    using str_contains_length [of cs sub] a(2) Cons by auto
  ultimately show "s = sub" using startswith_same_length a(2) by blast
qed

lemma str_contains_antisym: "str_contains s t \<Longrightarrow> str_contains t s \<Longrightarrow> s = t"
  using str_contains_length [of s t] str_contains_length [of t s] str_contains_same_length [of s t]
  by auto

lemma detect_contains:
  assumes "str_contains (lower (e_name a)) (lower (e_name b))"
    and "lower (e_name a) \<noteq> lower (e_name b)"
  shows "detect_relationship rt a b = Some (is_a_edge a b)"
    and "detect_relationship rt b a = Some (is_a_edge a b)"
proof -
  have "\<not> str_contains (lower (e_name b)) (lower (e_name a))"
    using assms str_contains_antisym by blast
  then show "detect_relationship rt a b = Some (is_a_edge a b)"
    using assms by (simp add: detect_relationship_def Let_def is_a_edge_def)
  show "detect_relationship rt b a = Some (is_a_edge a b)"
    using assms by (auto simp: detect_relationship_def Let_def is_a_edge_def)
qed

lemma map_filter_mem: "x \<in> set xs \<Longrightarrow> f x = Some y \<Longrightarrow> y \<in> set (List.map_filter f xs)"
  by (force simp: List.map_filter_def)

lemma pair_edges_mem:
  "i < j \<Longrightarrow> j < length es \<Longrightarrow> detect_relationship rt (es ! i) (es ! j) = Some r
   \<Longrightarrow> r \<in> set (pair_edges rt es)"
proof (induction es arbitrary: i j)
  case Nil
  then show ?case by simp
next
  case (Cons e es)
  show ?case
  proof (cases i)
    case 0
    with Cons.prems obtain j' where j': "j = Suc j'" "j' < length es"
      by (cases j) auto
    with Cons.prems 0 have "detect_relationship rt e (es ! j') = Some r" by simp
    with j' have "r \<in> set (List.map_filter (detect_relationship rt e) es)"
      by (intro map_filter_mem [of "es ! j'"]) auto
    then show ?thesis by simp
  next
    case (Suc i')
    with Cons.prems obtain j' where j': "j = Suc j'" "i' < j'" "j' < length es"
      by (cases j) auto
    with Cons.prems Suc have "r \<in> set (pair_edges rt es)"
      by (intro Cons.IH [of i' j']) auto
    then show ?thesis by simp
  qed
qed

lemma build_entities:
  "o_entities (build rt cfg) =
     map (\<lambda>kv. snd (score_entity (relationship_counts (ob_relationships (inferred rt cfg)))
                  (if relationship_counts (ob_relationships (inferred rt cfg)) = [] then 1
                   else foldr max (map snd (relationship_counts (ob_relationships (inferred rt cfg)))) 0) kv))
       (ob_entities (inferred rt cfg))"
  by (simp add: build_alt inferred_def calculate_entity_scores_def Let_def dict_values_def)

lemma build_relationships:
  "o_relationships (build rt cfg) = ob_relationships (inferred rt cfg)"
  by (simp add: build_alt inferred_def calculate_entity_scores_def Let_def)

lemma build_entity_name_id:
  assumes "i < length (o_entities (build rt cfg))"
  shows "e_name (o_entities (build rt cfg) ! i) = e_name (dict_values (ob_entities (inferred rt cfg)) ! i)"
    and "e_id (o_entities (build rt cfg) ! i) = e_id (dict_values (ob_entities (inferred rt cfg)) ! i)"
  using assms by (simp_all add: build_entities dict_values_def name_score_entity id_score_entity)

lemma inferred_pairs:
  "set (pair_edges rt (dict_values (ob_entities (inferred rt cfg))))
     \<subseteq> set (ob_relationships (inferred rt cfg))"
  by (auto simp: inferred_def infer_relationships_def Let_def)

text \<open>
Claim C4.  For every pair of distinct entities of the built ontology whose lower-cased names
  differ and where the name of the second is a substring of the name of the first, the
  relationships contain the \<open>is_a\<close> edge of weight 0.7 from the entity with the containing
  (longer) name to the entity with the contained (shorter) name, whatever their order in
  the entity list.
\<close>

theorem containment_gives_is_a_edge:
  assumes "i < length (o_entities (build rt cfg))"
    and "j < length (o_entities (build rt cfg))"
    and "i \<noteq> j"
    and "lower (e_name (o_entities (build rt cfg) ! i)) \<noteq> lower (e_name (o_entities (build rt cfg) ! j))"
    and "str_contains (lower (e_name (o_entities (build rt cfg) ! i)))
           (lower (e_name (o_entities (build rt cfg) ! j)))"
  shows "is_a_edge (o_entities (build rt cfg) ! i) (o_entities (build rt cfg) ! j)
           \<in> set (o_relationships (build rt cfg))"
proof -
  let ?es = "dict_values (ob_entities (inferred rt cfg))"
  have len: "length (o_entities (build rt cfg)) = length ?es"
    by (simp add: build_entities dict_values_def)
  have edge: "is_a_edge (o_entities (build rt cfg) ! i) (o_entities (build rt cfg) ! j)
                = is_a_edge (?es ! i) (?es ! j)"
    using assms(1,2) by (simp add: is_a_edge_def build_entity_name_id)
  have c: "str_contains (lower (e_name (?es ! i))) (lower (e_name (?es ! j)))"
    and n: "lower (e_name (?es ! i)) \<noteq> lower (e_name (?es ! j))"
    using assms by (simp_all add: build_entity_name_id)
  have "is_a_edge (?es ! i) (?es ! j) \<in> set (pair_edges rt ?es)"
  proof (cases "i < j")
    case True
    then show ?thesis
      using pair_edges_mem [of i j ?es rt] detect_contains(1) [OF c n] assms(2) len by simp
  next
    case False
    with assms(3) have "j < i" by simp
    then show ?thesis
      using pair_edges_mem [of j i ?es rt] detect_contains(2) [OF c n] assms(1) len by simp
  qed
  then show ?thesis
    using inferred_pairs [of rt cfg] edge by (auto simp: build_relationships)
qed

lemma tools_entities:
  "map (\<lambda>e. (e_id e, e_name e)) (o_entities (build rt0 cfg_tools)) =
     [(''tools_4a931512'', ''tools''), (''task_tools_5599022b'', ''task tools''),
      (''acme_53bce4f1'', ''Acme'')]"
  by code_simp




























text \<open>
The example of the claim: seeds \<open>tools\<close> and \<open>task tools\<close> give an \<open>is_a\<close> edge from
  \<open>task tools\<close> to \<open>tools\<close>.
\<close>

theorem containment_gives_is_a_edge_witness:
  "e_name (o_entities (build rt0 cfg_tools) ! 1) = ''task tools''
   \<and> e_name (o_entities (build rt0 cfg_tools) ! 0) = ''tools''
   \<and> is_a_edge (o_entities (build rt0 cfg_tools) ! 1) (o_entities (build rt0 cfg_tools) ! 0)
       \<in> set (o_relationships (build rt0 cfg_tools))"
proof -
  have l: "length (o_entities (build rt0 cfg_tools)) = 3" by code_simp
  have n1: "e_name (o_entities (build rt0 cfg_tools) ! 1) = ''task tools''" by code_simp
  have n0: "e_name (o_entities (build rt0 cfg_tools) ! 0) = ''tools''" by code_simp
  have ne: "lower ''task tools'' \<noteq> lower ''tools''" by code_simp
  have c: "str_contains (lower ''task tools'') (lower ''tools'')" by code_simp
  from containment_gives_is_a_edge [of 1 rt0 cfg_tools 0] l n1 n0 ne c show ?thesis by simp
qed










lemma sum_dict_incr: "sum_list (map snd (dict_incr d k)) = sum_list (map snd d) + 1"
proof -
  have "sum_list (map snd (AList.update k ((case map_of d k of None \<Rightarrow> 0 | Some c \<Rightarrow> c) + 1) d))
          = sum_list (map snd d) + 1"
    by (induction d) auto
  then show ?thesis by (simp add: dict_incr_def dict_set_def dict_get_def)
qed

lemma get_dict_incr:
  "dict_get (dict_incr d k) k' =
     (if k' = k then Some ((case dict_get d k of None \<Rightarrow> 0 | Some c \<Rightarrow> c) + 1) else dict_get d k')"
  by (simp add: dict_incr_def dict_set_def dict_get_def update_conv')

lemma keys_dict_incr: "distinct (map fst d) \<Longrightarrow> distinct (map fst (dict_incr d k))"
  by (simp add: dict_incr_def dict_set_def distinct_update)

lemma add_query_inv: "cluster_inv c \<Longrightarrow> cluster_inv (add_query c q)"
  by (auto simp: cluster_inv_def add_query_def intent_count_def sum_dict_incr get_dict_incr
      keys_dict_incr)

lemma foldl_add_query_inv: "cluster_inv c \<Longrightarrow> cluster_inv (foldl add_query c qs)"
  by (induction qs arbitrary: c) (simp_all add: add_query_inv)

lemma fanout_intents_known:
  "list_all (\<lambda>kv. IntentType_of_value (fst (snd (snd kv))) \<noteq> None) QUERY_FANOUT_PATTERNS"
  by code_simp

lemma those_map_Some:
  "list_all (\<lambda>x. f x \<noteq> None) xs \<Longrightarrow> \<exists>ys. those (map f xs) = Some ys"
  by (induction xs) auto

lemma generate_fanout_queries_returns: "\<exists>qs. generate_fanout_queries entity = Some qs"
proof -
  have "list_all (\<lambda>kv. pattern_queries entity kv \<noteq> None) QUERY_FANOUT_PATTERNS"
    using fanout_intents_known
    by (rule list.pred_mono_strong) (auto simp: pattern_queries_def split: prod.splits)
  then show ?thesis
    using those_map_Some [of "pattern_queries entity" QUERY_FANOUT_PATTERNS]
    by (auto simp: generate_fanout_queries_def)
qed

lemma create_query_cluster_returns:
  "\<exists>c. create_query_cluster rt entity = Some c \<and> cluster_inv c"
proof -
  obtain qs where "generate_fanout_queries entity = Some qs"
    using generate_fanout_queries_returns by blast
  moreover have "cluster_inv \<lparr>qc_id = i, primary_entity_id = p, primary_entity_name = n,
      queries = [], intent_distribution = [], total_estimated_volume = 0\<rparr>" for i p n
    by (simp add: cluster_inv_def intent_count_def dict_get_def)
  ultimately show ?thesis
    by (simp add: create_query_cluster_def Let_def foldl_add_query_inv)
qed

lemma add_clusters_returns:
  assumes "\<forall>c \<in> set (map snd clusters). cluster_inv c"
  shows "\<exists>cs. add_clusters rt es clusters = Some cs \<and> (\<forall>c \<in> set (map snd cs). cluster_inv c)"
  using assms
proof (induction es arbitrary: clusters)
  case Nil
  then show ?case by simp
next
  case (Cons e es)
  obtain c where c: "create_query_cluster rt e = Some c" "cluster_inv c"
    using create_query_cluster_returns by blast
  have "set (dict_set clusters (qc_id c) c) \<subseteq> insert (qc_id c, c) (set clusters)"
    by (simp add: dict_set_def set_update_subset)
  with Cons.prems c(2) have "\<forall>c' \<in> set (map snd (dict_set clusters (qc_id c) c)). cluster_inv c'"
    by auto
  from Cons.IH [OF this] c(1) show ?case by simp
qed

text \<open>
Claim C5.  \<open>map_all_entities\<close> returns, and in every cluster it returns the keys of
  \<open>intent_distribution\<close> are distinct, its values sum to the number of queries of the
  cluster, and the count stored for a key is the number of queries of the cluster whose
  intent has that value.
\<close>

theorem intent_distribution_counts_queries:
  "\<exists>clusters. map_all_entities rt ont = Some clusters
     \<and> (\<forall>c \<in> set clusters.
           distinct (dict_keys (intent_distribution c))
           \<and> sum_list (dict_values (intent_distribution c)) = length (queries c)
           \<and> (\<forall>(k, n) \<in> set (intent_distribution c).
                 n = length (filter (\<lambda>q. intent_value (intent q) = k) (queries c))))"
proof -
  let ?es = "filter (\<lambda>e. type_value (e_type e) = ''core'') (o_entities ont)
     @ filter (\<lambda>e. type_value (e_type e) = ''supporting'' \<and> e_semantic_centrality e > 1/2)
         (o_entities ont)"
  obtain cs where cs: "add_clusters rt ?es [] = Some cs" "\<forall>c \<in> set (map snd cs). cluster_inv c"
    using add_clusters_returns [of "[]" rt ?es] by auto
  have "distinct (dict_keys (intent_distribution c))
        \<and> sum_list (dict_values (intent_distribution c)) = length (queries c)
        \<and> (\<forall>(k, n) \<in> set (intent_distribution c).
              n = length (filter (\<lambda>q. intent_value (intent q) = k) (queries c)))"
    if "cluster_inv c" for c
  proof (intro conjI ballI)
    from that show "distinct (dict_keys (intent_distribution c))"
      by (simp add: cluster_inv_def dict_keys_def)
    from that show "sum_list (dict_values (intent_distribution c)) = length (queries c)"
      by (simp add: cluster_inv_def dict_values_def)
    fix kn assume kn: "kn \<in> set (intent_distribution c)"
    obtain k n where [simp]: "kn = (k, n)" by (cases kn)
    from that kn have "map_of (intent_distribution c) k = Some n"
      by (simp add: cluster_inv_def)
    with that have "n = length (filter (\<lambda>q. intent_value (intent q) = k) (queries c))"
      unfolding cluster_inv_def intent_count_def dict_get_def
      by (metis option.simps(5))
    then show "case kn of (k, n) \<Rightarrow>
      n = length (filter (\<lambda>q. intent_value (intent q) = k) (queries c))" by simp
  qed
  with cs show ?thesis
    by (simp add: map_all_entities_def Let_def dict_values_def)
qed

text \<open>
The example: the ontology built from the seeds \<open>tools\<close> and \<open>task tools\<close> has three core
  entities, and the mapper returns three clusters.
\<close>

theorem intent_distribution_counts_queries_witness:
  "\<exists>clusters. map_all_entities rt_ids (build rt_ids cfg_tools) = Some clusters
     \<and> map (\<lambda>c. (qc_id c, length (queries c), intent_distribution c)) clusters
         = [(''qc_9c2dca93'', 32, [(''informational'', 20), (''commercial'', 9), (''transactional'', 3)]),
            (''qc_8d0d104e'', 36, [(''informational'', 24), (''commercial'', 9), (''transactional'', 3)]),
            (''qc_78d17562'', 30, [(''informational'', 18), (''commercial'', 9), (''transactional'', 3)])]
     \<and> (\<forall>c \<in> set clusters.
           distinct (dict_keys (intent_distribution c))
           \<and> sum_list (dict_values (intent_distribution c)) = length (queries c)
           \<and> (\<forall>(k, n) \<in> set (intent_distribution c).
                 n = length (filter (\<lambda>q. intent_value (intent q) = k) (queries c))))"
proof -
  have v: "map_option (map (\<lambda>c. (qc_id c, length (queries c), intent_distribution c)))
             (map_all_entities rt_ids (build rt_ids cfg_tools))
      = Some [(''qc_9c2dca93'', 32, [(''informational'', 20), (''commercial'', 9), (''transactional'', 3)]),
            (''qc_8d0d104e'', 36, [(''informational'', 24), (''commercial'', 9), (''transactional'', 3)]),
            (''qc_78d17562'', 30, [(''informational'', 18), (''commercial'', 9), (''transactional'', 3)])]"
    by code_simp
  from intent_distribution_counts_queries [of rt_ids "build rt_ids cfg_tools"] v
  show ?thesis by auto
qed

end
